theory Spec2Isabelle
  imports Complex_Main
begin

section \<open>JavaScript values and the telemetry objects\<close>

text \<open>
  The service (\<^verbatim>\<open>src/app/index.js\<close>) is an Express application whose handlers write to
  OpenTelemetry spans and metric instruments. A JavaScript number is modelled by the real
  it denotes, and the arithmetic by the exact arithmetic of the reals; where what a claim
  says depends on how a double operation rounds (the product of line 75, the literal of
  line 94), the rounding \<open>to_double\<close> is written out. \<^verbatim>\<open>Date.now()\<close> is an integer clock in
  milliseconds. Three renderings done by the runtime
  are kept symbolic: \<open>JDate t\<close> is \<^verbatim>\<open>new Date().toISOString()\<close> read at clock \<open>t\<close>,
  \<open>JRandId r\<close> is \<^verbatim>\<open>r.toString(36).substr(2, 9)\<close> of a random draw \<open>r\<close>, and
  \<open>JLenOf v\<close> is the \<^verbatim>\<open>Content-Length\<close> header that \<^verbatim>\<open>res.json(v)\<close> sets.
\<close>

datatype jsval =
    JStr string
  | JNum real
  | JBool bool
  | JDate int
  | JRandId real
  | JLenOf jsval
  | JArr "jsval list"
  | JObj "(string \<times> jsval) list"

record js_error =
  err_message :: string
  err_stack :: string

text \<open>\<^verbatim>\<open>new Error(msg)\<close>: the stack starts with this line; its frames are the runtime's and
  are left out.\<close>

definition new_Error :: "string \<Rightarrow> js_error" where
  "new_Error msg = \<lparr>err_message = msg, err_stack = ''Error: '' @ msg\<rparr>"

definition digit :: "nat \<Rightarrow> char" where
  "digit n = ''0123456789'' ! n"

fun decimal :: "nat \<Rightarrow> string" where
  "decimal n = (if n < 10 then [digit n] else decimal (n div 10) @ [digit (n mod 10)])"

declare decimal.simps [simp del]

definition show_int :: "int \<Rightarrow> string" where
  "show_int i = (if i < 0 then CHR ''-'' # decimal (nat (- i)) else decimal (nat i))"

subsection \<open>Doubles\<close>

text \<open>
  The result of a double operation is the double nearest to the exact result, and of two
  nearest ones the one with the even significand. \<open>rne\<close> rounds to the nearest
  integer, a tie to the even one; \<open>double_exp\<close> is the exponent of the last of the 53
  bits of the significand, not below that of the subnormal numbers. Results beyond the
  largest double are not modelled: every value rounded here is below 512.
\<close>

definition rne :: "real \<Rightarrow> int" where
  "rne x = (let n = \<lfloor>x\<rfloor>; f = x - of_int n
            in if f < 1 / 2 then n else if 1 / 2 < f then n + 1
               else if even n then n else n + 1)"

definition double_exp :: "real \<Rightarrow> int" where
  "double_exp x = max (\<lfloor>log 2 \<bar>x\<bar>\<rfloor> - 52) (- 1074)"

definition to_double :: "real \<Rightarrow> real" where
  "to_double x =
     (if x = 0 then 0 else of_int (rne (x / 2 powi double_exp x)) * 2 powi double_exp x)"

subsection \<open>Spans\<close>

record span =
  span_name :: string
  span_attrs :: "(string \<times> jsval) list"
  span_events :: "(string \<times> (string \<times> jsval) list) list"
  span_excs :: "js_error list"
  span_status :: "(nat \<times> string option) option"
  span_ended :: nat

definition new_span :: "string \<Rightarrow> span" where
  "new_span n = \<lparr>span_name = n, span_attrs = [], span_events = [], span_excs = [],
                 span_status = None, span_ended = 0\<rparr>"

text \<open>\<^verbatim>\<open>setAttributes\<close> overwrites a key that is already set: the newest binding is
  first, and \<open>map_of\<close> reads the first.\<close>

definition setAttributes :: "(string \<times> jsval) list \<Rightarrow> span \<Rightarrow> span" where
  "setAttributes kvs s = s\<lparr>span_attrs := kvs @ span_attrs s\<rparr>"

definition addEvent :: "string \<Rightarrow> (string \<times> jsval) list \<Rightarrow> span \<Rightarrow> span" where
  "addEvent n kvs s = s\<lparr>span_events := span_events s @ [(n, kvs)]\<rparr>"

definition recordException :: "js_error \<Rightarrow> span \<Rightarrow> span" where
  "recordException e s = s\<lparr>span_excs := span_excs s @ [e]\<rparr>"

definition setStatus :: "nat \<Rightarrow> string option \<Rightarrow> span \<Rightarrow> span" where
  "setStatus c m s = s\<lparr>span_status := Some (c, m)\<rparr>"

text \<open>\<open>span_ended\<close> counts the calls of \<^verbatim>\<open>span.end()\<close>.\<close>

definition end_span :: "span \<Rightarrow> span" where
  "end_span s = s\<lparr>span_ended := Suc (span_ended s)\<rparr>"

section \<open>Requests, responses and the process state\<close>

record request =
  req_method :: string
  req_path :: string
  req_url :: string
  user_agent :: "string option"

record response =
  statusCode :: nat
  res_body :: jsval
  content_length :: "jsval option"

text \<open>\<^verbatim>\<open>res.json(body)\<close> keeps the status (200 unless \<^verbatim>\<open>res.status\<close> was called) and
  sets the \<^verbatim>\<open>Content-Length\<close> header.\<close>

definition res_json :: "nat \<Rightarrow> jsval \<Rightarrow> response" where
  "res_json code b = \<lparr>statusCode = code, res_body = b, content_length = Some (JLenOf b)\<rparr>"

datatype instrument_kind = Counter | Histogram | UpDownCounter | Gauge

record mem_usage =
  rss :: nat
  heapTotal :: nat
  heapUsed :: nat
  external :: nat
  arrayBuffers :: nat

text \<open>
  The process state the handlers write to. \<open>spans\<close> holds the spans started by
  \<^verbatim>\<open>tracer.startSpan\<close>, in the order they were started (a span handle is its index);
  \<open>active_span\<close> is what \<^verbatim>\<open>trace.getActiveSpan()\<close> returns (\<^verbatim>\<open>tracer.startSpan\<close> does
  not make a span active, so this is the span of the auto-instrumentation, if any);
  \<open>instruments\<close> logs every \<^verbatim>\<open>meter.create...\<close> call; the next three fields are what was
  written to the three module-level instruments; \<open>gauge_records\<close> what was written to gauges;
  \<open>console\<close> the lines of \<^verbatim>\<open>console.error\<close>.
\<close>

record world =
  clock :: int
  spans :: "span list"
  active_span :: "span option"
  instruments :: "(instrument_kind \<times> string) list"
  httpRequestsTotal :: "(int \<times> (string \<times> string) list) list"
  httpRequestDuration :: "(real \<times> (string \<times> string) list) list"
  activeConnections :: int
  gauge_records :: "(string \<times> real) list"
  console :: "string list list"

text \<open>
  What the runtime decides for one request: the draws of \<^verbatim>\<open>Math.random()\<close> (the
  \<open>k\<close>-th call of the handler returns \<open>random k\<close>), the readings of
  \<^verbatim>\<open>process.memoryUsage()\<close> and \<^verbatim>\<open>process.uptime()\<close>, the ambient active span, the
  error of a timer (the time its callback runs on the clock of \<^verbatim>\<open>Date.now()\<close>, minus the
  time it was asked for: positive when the timer fires late, negative when it fires
  early), the time from the handler's end to the response's \<^verbatim>\<open>finish\<close> event, and whether
  a call inside the handler throws: \<open>fault = Some (k, e)\<close> makes the handler's \<open>k\<close>-th
  fault point throw \<open>e\<close>.
\<close>

record env =
  random :: "nat \<Rightarrow> real"
  memoryUsage :: mem_usage
  uptime :: real
  ambient :: "span option"
  timer_error :: int
  lag :: nat
  fault :: "(nat \<times> js_error) option"

definition throws_at :: "env \<Rightarrow> nat \<Rightarrow> js_error option" where
  "throws_at ev k = (case fault ev of None \<Rightarrow> None
                     | Some (n, e) \<Rightarrow> if n = k then Some e else None)"

text \<open>Lines 10-20: the three instruments the module creates when it is loaded.\<close>

definition startup :: "int \<Rightarrow> world" where
  "startup t = \<lparr>clock = t, spans = [], active_span = None,
     instruments = [(Counter, ''http_requests_total''),
                    (Histogram, ''http_request_duration_seconds''),
                    (UpDownCounter, ''active_connections'')],
     httpRequestsTotal = [], httpRequestDuration = [], activeConnections = 0,
     gauge_records = [], console = []\<rparr>"

text \<open>\<^verbatim>\<open>tracer.startSpan(name)\<close> returns the handle of a new span.\<close>

definition startSpan :: "string \<Rightarrow> world \<Rightarrow> nat \<times> world" where
  "startSpan n w = (length (spans w), w\<lparr>spans := spans w @ [new_span n]\<rparr>)"

text \<open>A call on a span handle; a handle always refers to a started span.\<close>

definition on_span :: "nat \<Rightarrow> (span \<Rightarrow> span) \<Rightarrow> world \<Rightarrow> world" where
  "on_span sid f w =
     (if sid < length (spans w) then w\<lparr>spans := (spans w)[sid := f (spans w ! sid)]\<rparr> else w)"

text \<open>A call \<^verbatim>\<open>span?.f(...)\<close> on the active span, skipped when there is none.\<close>

definition on_active :: "(span \<Rightarrow> span) \<Rightarrow> world \<Rightarrow> world" where
  "on_active f w = w\<lparr>active_span := map_option f (active_span w)\<rparr>"

text \<open>\<^verbatim>\<open>setTimeout(cb, d)\<close>: when the callback runs, the clock has advanced by \<open>d\<close>
  and by the timer's error.\<close>

definition sleep :: "env \<Rightarrow> int \<Rightarrow> world \<Rightarrow> world" where
  "sleep ev d w = w\<lparr>clock := clock w + d + timer_error ev\<rparr>"

section \<open>The request-tracking middleware (lines 23-61)\<close>

text \<open>\<^verbatim>\<open>req.get('User-Agent') || 'unknown'\<close>: an absent header is \<^verbatim>\<open>undefined\<close>, and the
  empty string is falsy as well.\<close>

definition user_agent_or_unknown :: "request \<Rightarrow> string" where
  "user_agent_or_unknown req =
     (case user_agent req of None \<Rightarrow> ''unknown''
      | Some ua \<Rightarrow> if ua = [] then ''unknown'' else ua)"

text \<open>The part before \<^verbatim>\<open>next()\<close>. It returns what the \<^verbatim>\<open>finish\<close> closure captures:
  \<^verbatim>\<open>startTime\<close> and the span.\<close>

definition middleware_entry :: "request \<Rightarrow> world \<Rightarrow> (int \<times> nat) \<times> world" where
  "middleware_entry req w =
     (let startTime = clock w;
          (sid, w1) = startSpan (req_method req @ '' '' @ req_path req) w;
          w2 = on_span sid (setAttributes
                 [(''http.method'', JStr (req_method req)),
                  (''http.url'', JStr (req_url req)),
                  (''http.user_agent'', JStr (user_agent_or_unknown req))]) w1;
          w3 = w2\<lparr>httpRequestsTotal := httpRequestsTotal w2 @
                 [(1, [(''method'', req_method req), (''endpoint'', req_path req)])]\<rparr>;
          w4 = w3\<lparr>activeConnections := activeConnections w3 + 1\<rparr>
      in ((startTime, sid), w4))"

text \<open>Line 43: \<^verbatim>\<open>(Date.now() - startTime) / 1000\<close>.\<close>

definition duration :: "int \<Rightarrow> int \<Rightarrow> real" where
  "duration now startTime = of_int (now - startTime) / 1000"

text \<open>The \<^verbatim>\<open>res.on('finish', ...)\<close> callback (lines 42-58).\<close>

definition on_finish :: "request \<Rightarrow> response \<Rightarrow> int \<Rightarrow> nat \<Rightarrow> world \<Rightarrow> world" where
  "on_finish req res startTime sid w =
     (let d = duration (clock w) startTime;
          w1 = on_span sid (setAttributes
                 [(''http.status_code'', JNum (of_nat (statusCode res))),
                  (''http.response_size'',
                     (case content_length res of Some v \<Rightarrow> v | None \<Rightarrow> JNum 0))]) w;
          w2 = w1\<lparr>httpRequestDuration := httpRequestDuration w1 @
                 [(d, [(''method'', req_method req), (''endpoint'', req_path req),
                       (''status_code'', decimal (statusCode res))])]\<rparr>;
          w3 = w2\<lparr>activeConnections := activeConnections w2 + (- 1)\<rparr>
      in on_span sid end_span w3)"

section \<open>The route handlers\<close>

text \<open>
  A handler returns the response it wrote, or the error it threw, and the state it left.
  Fault point 0 of a synchronous handler is its entry: the handler throws before it has
  done anything, and Express passes the error to the error handler.
\<close>

type_synonym outcome = "(js_error + response) \<times> world"

definition mem_json :: "mem_usage \<Rightarrow> jsval" where
  "mem_json u = JObj [(''rss'', JNum (of_nat (rss u))),
                      (''heapTotal'', JNum (of_nat (heapTotal u))),
                      (''heapUsed'', JNum (of_nat (heapUsed u))),
                      (''external'', JNum (of_nat (external u))),
                      (''arrayBuffers'', JNum (of_nat (arrayBuffers u)))]"

text \<open>\<^verbatim>\<open>GET /health\<close> (lines 64-71).\<close>

definition health :: "env \<Rightarrow> world \<Rightarrow> outcome" where
  "health ev w =
     (case throws_at ev 0 of Some e \<Rightarrow> (Inl e, w) | None \<Rightarrow>
      (Inr (res_json 200 (JObj [(''status'', JStr ''healthy''),
                                (''timestamp'', JDate (clock w)),
                                (''uptime'', JNum (uptime ev)),
                                (''memory'', mem_json (memoryUsage ev))])), w))"

text \<open>\<^verbatim>\<open>GET /hello\<close> (lines 74-89): the part that runs at once, which draws the delay,
  and the timer's callback, which writes the response. Line 75 takes the floor of the
  double product.\<close>

definition hello_delay :: "env \<Rightarrow> int" where
  "hello_delay ev = \<lfloor>to_double (random ev 0 * 500)\<rfloor>"

definition hello_sync :: "env \<Rightarrow> world \<Rightarrow> world" where
  "hello_sync ev w =
     on_active (addEvent ''Processing hello request''
                  [(''delay'', JNum (of_int (hello_delay ev)))]) w"

definition hello_callback :: "env \<Rightarrow> int \<Rightarrow> response" where
  "hello_callback ev delay =
     res_json 200 (JObj [(''message'', JStr ''Hello, Observability from Node.js!''),
                         (''delay'', JNum (of_int delay)),
                         (''requestId'', JRandId (random ev 1))])"

definition hello :: "env \<Rightarrow> world \<Rightarrow> outcome" where
  "hello ev w =
     (case throws_at ev 0 of Some e \<Rightarrow> (Inl e, w) | None \<Rightarrow>
      (let delay = hello_delay ev;
           w1 = hello_sync ev w;
           w2 = sleep ev delay w1
       in (Inr (hello_callback ev delay), w2)))"

text \<open>\<^verbatim>\<open>GET /flaky\<close> (lines 92-111). The literal \<^verbatim>\<open>0.3\<close> of line 94 is the double nearest
  to three tenths.\<close>

definition shouldFail :: "real \<Rightarrow> bool" where
  "shouldFail r \<longleftrightarrow> r < to_double (3 / 10)"

definition flaky :: "env \<Rightarrow> world \<Rightarrow> outcome" where
  "flaky ev w =
     (case throws_at ev 0 of Some e \<Rightarrow> (Inl e, w) | None \<Rightarrow>
      (if shouldFail (random ev 0) then
         (let error = new_Error ''Simulated random error'';
              w1 = on_active (recordException error) w;
              w2 = on_active (setStatus 2 (Some ''Random error occurred'')) w1;
              w3 = w2\<lparr>console := console w2 @ [[''Flaky endpoint error:'', err_message error]]\<rparr>
          in (Inr (res_json 500 (JObj [(''error'', JStr ''Something went wrong!'')])), w3))
       else
         (let w1 = on_active (addEvent ''Flaky endpoint succeeded'' []) w
          in (Inr (res_json 200 (JObj [(''message'', JStr ''Success!''),
                                       (''timestamp'', JDate (clock w1)),
                                       (''success'', JBool True)])), w1))))"

text \<open>\<^verbatim>\<open>GET /cpu-intensive\<close> (lines 114-134). The loop of lines 122-124 returns the
  loop variable it stopped at and the accumulated \<^verbatim>\<open>result\<close>; iteration \<open>i\<close> takes the
  \<open>i\<close>-th random draw.\<close>

function cpu_loop :: "(nat \<Rightarrow> real) \<Rightarrow> nat \<Rightarrow> nat \<Rightarrow> real \<Rightarrow> nat \<times> real" where
  "cpu_loop rnd iterations i result =
     (if i < iterations
      then cpu_loop rnd iterations (Suc i) (result + sqrt (real i) * rnd i)
      else (i, result))"
  by pat_completeness auto
termination
  by (relation "measure (\<lambda>(rnd, iterations, i, result). iterations - i)") auto

declare cpu_loop.simps [simp del]

definition cpu_intensive :: "env \<Rightarrow> world \<Rightarrow> outcome" where
  "cpu_intensive ev w =
     (case throws_at ev 0 of Some e \<Rightarrow> (Inl e, w) | None \<Rightarrow>
      (let w1 = on_active (addEvent ''Starting CPU intensive operation'' []) w;
           iterations = 1000000;
           (i, result) = cpu_loop (random ev) iterations 0 0;
           w2 = on_active (addEvent ''CPU intensive operation completed''
                  [(''iterations'', JNum (of_nat iterations)), (''result'', JNum result)]) w1
       in (Inr (res_json 200 (JObj [(''message'', JStr ''CPU intensive operation completed''),
                                    (''iterations'', JNum (of_nat iterations)),
                                    (''result'', JNum (of_int (round result))),
                                    (''timestamp'', JDate (clock w2))])), w2)))"

text \<open>\<^verbatim>\<open>GET /memory\<close> (lines 137-156).\<close>

definition mb :: "nat \<Rightarrow> string" where
  "mb bytes = show_int (round (real bytes / 1024 / 1024)) @ '' MB''"

definition memory :: "env \<Rightarrow> world \<Rightarrow> outcome" where
  "memory ev w =
     (case throws_at ev 0 of Some e \<Rightarrow> (Inl e, w) | None \<Rightarrow>
      (let usage = memoryUsage ev;
           w1 = on_active (setAttributes
                  [(''memory.heap_used'', JNum (of_nat (heapUsed usage))),
                   (''memory.heap_total'', JNum (of_nat (heapTotal usage))),
                   (''memory.external'', JNum (of_nat (external usage)))]) w
       in (Inr (res_json 200 (JObj
                  [(''memory'', JObj [(''heapUsed'', JStr (mb (heapUsed usage))),
                                      (''heapTotal'', JStr (mb (heapTotal usage))),
                                      (''external'', JStr (mb (external usage))),
                                      (''rss'', JStr (mb (rss usage)))]),
                   (''timestamp'', JDate (clock w1))])), w1)))"

text \<open>\<^verbatim>\<open>GET /db-query\<close> (lines 159-192). \<open>db_try\<close> is the body of the \<^verbatim>\<open>try\<close> block, with
  a fault point before each of its calls up to the one that writes the response;
  \<open>db_query\<close> adds the \<^verbatim>\<open>catch\<close> and \<^verbatim>\<open>finally\<close> blocks.\<close>

definition db_try :: "env \<Rightarrow> nat \<Rightarrow> world \<Rightarrow> outcome" where
  "db_try ev sid w =
     (case throws_at ev 0 of Some e \<Rightarrow> (Inl e, w) | None \<Rightarrow>
      (let w1 = on_span sid (setAttributes
                  [(''db.system'', JStr ''postgresql''),
                   (''db.operation'', JStr ''SELECT''),
                   (''db.table'', JStr ''users'')]) w;
           queryTime = \<lfloor>random ev 0 * 200\<rfloor> + 50
       in case throws_at ev 1 of Some e \<Rightarrow> (Inl e, w1) | None \<Rightarrow>
          (let w2 = sleep ev queryTime w1
           in case throws_at ev 2 of Some e \<Rightarrow> (Inl e, w2) | None \<Rightarrow>
              (let w3 = on_span sid (addEvent ''Query executed successfully''
                          [(''duration'', JNum (of_int queryTime))]) w2;
                   w4 = on_span sid (setStatus 1 None) w3
               in (Inr (res_json 200 (JObj
                     [(''message'', JStr ''Database query completed''),
                      (''queryTime'', JStr (show_int queryTime @ ''ms'')),
                      (''data'', JArr
                         [JObj [(''id'', JNum 1), (''name'', JStr ''John Doe''),
                                (''email'', JStr ''john@example.com'')],
                          JObj [(''id'', JNum 2), (''name'', JStr ''Jane Smith''),
                                (''email'', JStr ''jane@example.com'')]]),
                      (''timestamp'', JDate (clock w4))])), w4)))))"

definition db_query :: "env \<Rightarrow> world \<Rightarrow> outcome" where
  "db_query ev w =
     (let (sid, w0) = startSpan ''database_query'' w;
          (r, w1) = db_try ev sid w0;
          (res, w2) =
            (case r of
               Inr res \<Rightarrow> (res, w1)
             | Inl error \<Rightarrow>
                 (let w1a = on_span sid (recordException error) w1;
                      w1b = on_span sid (setStatus 2 (Some (err_message error))) w1a
                  in (res_json 500 (JObj [(''error'', JStr ''Database error'')]), w1b)))
      in (Inr res, on_span sid end_span w2))"

text \<open>\<^verbatim>\<open>GET /metrics-demo\<close> (lines 195-211).\<close>

definition createGauge :: "string \<Rightarrow> world \<Rightarrow> world" where
  "createGauge n w = w\<lparr>instruments := instruments w @ [(Gauge, n)]\<rparr>"

definition gauge_record :: "string \<Rightarrow> real \<Rightarrow> world \<Rightarrow> world" where
  "gauge_record n v w = w\<lparr>gauge_records := gauge_records w @ [(n, v)]\<rparr>"

definition metrics_demo :: "env \<Rightarrow> world \<Rightarrow> outcome" where
  "metrics_demo ev w =
     (case throws_at ev 0 of Some e \<Rightarrow> (Inl e, w) | None \<Rightarrow>
      (let w1 = createGauge ''demo_custom_value'' w;
           w2 = gauge_record ''demo_custom_value'' (random ev 0 * 100) w1;
           w3 = createGauge ''room_temperature_celsius'' w2;
           w4 = gauge_record ''room_temperature_celsius'' (20 + random ev 1 * 10) w3
       in (Inr (res_json 200 (JObj
                  [(''message'', JStr ''Custom metrics generated''),
                   (''timestamp'', JDate (clock w4)),
                   (''values'', JObj [(''customValue'', JNum (random ev 2 * 100)),
                                      (''temperature'', JNum (20 + random ev 3 * 10))])])),
           w4)))"

text \<open>The 404 handler (lines 214-220).\<close>

definition not_found :: "env \<Rightarrow> request \<Rightarrow> world \<Rightarrow> outcome" where
  "not_found ev req w =
     (case throws_at ev 0 of Some e \<Rightarrow> (Inl e, w) | None \<Rightarrow>
      (Inr (res_json 404 (JObj [(''error'', JStr ''Not Found''),
                                (''path'', JStr (req_path req)),
                                (''timestamp'', JDate (clock w))])), w))"

text \<open>The error handler (lines 223-233).\<close>

definition error_handler :: "js_error \<Rightarrow> world \<Rightarrow> response \<times> world" where
  "error_handler err w =
     (let w1 = on_active (recordException err) w;
          w2 = w1\<lparr>console := console w1 @ [[''Unhandled error:'', err_stack err]]\<rparr>
      in (res_json 500 (JObj [(''error'', JStr ''Internal Server Error''),
                              (''timestamp'', JDate (clock w2))]), w2))"

section \<open>One request, from arrival to the \<^verbatim>\<open>finish\<close> event\<close>

text \<open>
  Express tries the registered routes in the order of their registration (lines 64, 74,
  92, 114, 137, 159, 195) and falls through to the 404 handler of line 214. Whether a
  request matches the pattern of an \<^verbatim>\<open>app.get\<close> route is decided by Express, so the
  matcher \<open>m\<close> is a parameter.
\<close>

datatype route = Health | Hello | Flaky | CpuIntensive | Memory | DbQuery | MetricsDemo | NotFound

definition route_of :: "(string \<Rightarrow> request \<Rightarrow> bool) \<Rightarrow> request \<Rightarrow> route" where
  "route_of m req =
     (if m ''/health'' req then Health
      else if m ''/hello'' req then Hello
      else if m ''/flaky'' req then Flaky
      else if m ''/cpu-intensive'' req then CpuIntensive
      else if m ''/memory'' req then Memory
      else if m ''/db-query'' req then DbQuery
      else if m ''/metrics-demo'' req then MetricsDemo
      else NotFound)"

definition dispatch :: "(string \<Rightarrow> request \<Rightarrow> bool) \<Rightarrow> env \<Rightarrow> request \<Rightarrow> world \<Rightarrow> outcome" where
  "dispatch m ev req w =
     (case route_of m req of
        Health \<Rightarrow> health ev w
      | Hello \<Rightarrow> hello ev w
      | Flaky \<Rightarrow> flaky ev w
      | CpuIntensive \<Rightarrow> cpu_intensive ev w
      | Memory \<Rightarrow> memory ev w
      | DbQuery \<Rightarrow> db_query ev w
      | MetricsDemo \<Rightarrow> metrics_demo ev w
      | NotFound \<Rightarrow> not_found ev req w)"

text \<open>The ambient span is installed, the middleware runs, the route handler runs, an
  error it threw goes to the error handler, and the response's \<^verbatim>\<open>finish\<close> event runs
  the middleware's callback.\<close>

definition handle_request ::
    "(string \<Rightarrow> request \<Rightarrow> bool) \<Rightarrow> env \<Rightarrow> request \<Rightarrow> world \<Rightarrow> response \<times> world" where
  "handle_request m ev req w =
     (let w0 = w\<lparr>active_span := ambient ev\<rparr>;
          ((startTime, sid), w1) = middleware_entry req w0;
          (r, w2) = dispatch m ev req w1;
          (res, w3) = (case r of Inr res \<Rightarrow> (res, w2) | Inl err \<Rightarrow> error_handler err w2);
          w4 = w3\<lparr>clock := clock w3 + int (lag ev)\<rparr>
      in (res, on_finish req res startTime sid w4))"

text \<open>The same run up to the \<^verbatim>\<open>finish\<close> event: the response, and the state in which
  the middleware's callback is about to run.\<close>

definition before_finish ::
    "(string \<Rightarrow> request \<Rightarrow> bool) \<Rightarrow> env \<Rightarrow> request \<Rightarrow> world \<Rightarrow> response \<times> world" where
  "before_finish m ev req w =
     (let w1 = snd (middleware_entry req (w\<lparr>active_span := ambient ev\<rparr>));
          (r, w2) = dispatch m ev req w1;
          (res, w3) = (case r of Inr res \<Rightarrow> (res, w2) | Inl err \<Rightarrow> error_handler err w2)
      in (res, w3\<lparr>clock := clock w3 + int (lag ev)\<rparr>))"

text \<open>The response the client gets for a handler's outcome.\<close>

definition answer :: "outcome \<Rightarrow> response" where
  "answer out = (case fst out of Inr res \<Rightarrow> res | Inl err \<Rightarrow> fst (error_handler err (snd out)))"

subsection \<open>Requests in flight together\<close>

text \<open>
  Between its arrival and its \<^verbatim>\<open>finish\<close> event a request shares the process with the
  others. The steps of the event loop that write to the state: the middleware runs for an
  arriving request, a route handler runs, the error handler runs, a response finishes.
  A handler that waits is one step here; what it writes while other requests run is its
  own span and the clock.
\<close>

datatype event =
    Arrives request
  | Handles "string \<Rightarrow> request \<Rightarrow> bool" env request
  | Catches js_error
  | Finishes request response int nat

fun step :: "event \<Rightarrow> world \<Rightarrow> world" where
  "step (Arrives req) w = snd (middleware_entry req w)"
| "step (Handles m ev req) w = snd (dispatch m ev req w)"
| "step (Catches err) w = snd (error_handler err w)"
| "step (Finishes req res startTime sid) w = on_finish req res startTime sid w"

fun arrivals :: "event list \<Rightarrow> nat" where
  "arrivals [] = 0"
| "arrivals (Arrives req # es) = Suc (arrivals es)"
| "arrivals (e # es) = arrivals es"

fun finishes :: "event list \<Rightarrow> nat" where
  "finishes [] = 0"
| "finishes (Finishes req res startTime sid # es) = Suc (finishes es)"
| "finishes (e # es) = finishes es"

section \<open>What the statements observe\<close>

text \<open>The spec's words for the recorded duration: the elapsed milliseconds divided by
  1000, rounded to 3 decimals (\<open>round\<close> is \<^verbatim>\<open>Math.round\<close>: the floor of \<open>x + 1/2\<close>).\<close>

definition elapsed_seconds_spec :: "int \<Rightarrow> int \<Rightarrow> real" where
  "elapsed_seconds_spec now start =
     of_int (round (of_int (now - start) / 1000 * (1000::real))) / 1000"

definition json_field :: "string \<Rightarrow> jsval \<Rightarrow> jsval option" where
  "json_field k v = (case v of JObj kvs \<Rightarrow> map_of kvs k | _ \<Rightarrow> None)"

text \<open>The \<^verbatim>\<open>delay\<close> field of the body a handler answered with.\<close>

definition delay_field :: "outcome \<Rightarrow> jsval option" where
  "delay_field out =
     (case fst out of Inr res \<Rightarrow> json_field ''delay'' (res_body res) | Inl e \<Rightarrow> None)"

text \<open>The time that passed on the clock between a handler's entry in state \<open>w\<close> and
  its answer.\<close>

definition waited :: "world \<Rightarrow> outcome \<Rightarrow> int" where
  "waited w out = clock (snd out) - clock w"


text \<open>The values of the attributes of the active span.\<close>

definition active_attr_values :: "world \<Rightarrow> jsval list" where
  "active_attr_values w =
     (case active_span w of None \<Rightarrow> [] | Some s \<Rightarrow> map snd (span_attrs s))"

text \<open>The fields of the state that no route handler writes.\<close>

definition keeps :: "world \<Rightarrow> world \<Rightarrow> bool" where
  "keeps w w' \<longleftrightarrow>
     activeConnections w' = activeConnections w \<and>
     httpRequestDuration w' = httpRequestDuration w \<and>
     httpRequestsTotal w' = httpRequestsTotal w"

subsection \<open>Concrete runs\<close>

text \<open>A matcher: method \<^verbatim>\<open>GET\<close> and the exact path.\<close>

definition exact_get :: "string \<Rightarrow> request \<Rightarrow> bool" where
  "exact_get p req = (req_method req = ''GET'' \<and> req_path req = p)"

definition get_request :: "string \<Rightarrow> request" where
  "get_request p = \<lparr>req_method = ''GET'', req_path = p, req_url = p, user_agent = None\<rparr>"

text \<open>Environments: every draw is 0, timers fire 1 ms late and nothing throws; the
  same with every draw 1/2; the same with a throw at fault point 1; the same with every
  draw 9/1024 and timers that fire 1 ms early; the same with every draw the double 0.3.\<close>

definition quiet_env :: env where
  "quiet_env = \<lparr>random = (\<lambda>k. 0),
      memoryUsage = \<lparr>rss = 52428800, heapTotal = 20971520, heapUsed = 10485760,
                      external = 1048576, arrayBuffers = 1024\<rparr>,
      uptime = 12, ambient = Some (new_span ''GET''), timer_error = 1, lag = 2, fault = None\<rparr>"

definition half_env :: env where
  "half_env = quiet_env\<lparr>random := (\<lambda>k. 1 / 2)\<rparr>"

definition throwing_env :: env where
  "throwing_env = quiet_env\<lparr>fault := Some (1, new_Error ''connection reset'')\<rparr>"

definition early_env :: env where
  "early_env = quiet_env\<lparr>random := (\<lambda>k. 9 / 1024), timer_error := - 1\<rparr>"


text \<open>The state after startup, with an active span.\<close>

definition serving :: world where
  "serving = (startup 0)\<lparr>active_span := Some (new_span ''GET'')\<rparr>"

section \<open>What each step changes\<close>

lemma on_span_fields [simp]:
  "clock (on_span sid f w) = clock w"
  "active_span (on_span sid f w) = active_span w"
  "instruments (on_span sid f w) = instruments w"
  "httpRequestsTotal (on_span sid f w) = httpRequestsTotal w"
  "httpRequestDuration (on_span sid f w) = httpRequestDuration w"
  "activeConnections (on_span sid f w) = activeConnections w"
  "gauge_records (on_span sid f w) = gauge_records w"
  "console (on_span sid f w) = console w"
  "length (spans (on_span sid f w)) = length (spans w)"
  by (simp_all add: on_span_def)

lemma on_span_last [simp]:
  "spans w = xs @ [s] \<Longrightarrow> spans (on_span (length xs) f w) = xs @ [f s]"
  by (simp add: on_span_def)

lemma on_active_fields [simp]:
  "clock (on_active f w) = clock w"
  "spans (on_active f w) = spans w"
  "instruments (on_active f w) = instruments w"
  "httpRequestsTotal (on_active f w) = httpRequestsTotal w"
  "httpRequestDuration (on_active f w) = httpRequestDuration w"
  "activeConnections (on_active f w) = activeConnections w"
  "gauge_records (on_active f w) = gauge_records w"
  "console (on_active f w) = console w"
  "active_span (on_active f w) = map_option f (active_span w)"
  by (simp_all add: on_active_def)

lemma sleep_fields [simp]:
  "clock (sleep ev d w) = clock w + d + timer_error ev"
  "spans (sleep ev d w) = spans w"
  "active_span (sleep ev d w) = active_span w"
  "instruments (sleep ev d w) = instruments w"
  "httpRequestsTotal (sleep ev d w) = httpRequestsTotal w"
  "httpRequestDuration (sleep ev d w) = httpRequestDuration w"
  "activeConnections (sleep ev d w) = activeConnections w"
  "gauge_records (sleep ev d w) = gauge_records w"
  "console (sleep ev d w) = console w"
  by (simp_all add: sleep_def)

lemma span_ended_ops [simp]:
  "span_ended (setAttributes kvs s) = span_ended s"
  "span_ended (addEvent n kvs s) = span_ended s"
  "span_ended (recordException e s) = span_ended s"
  "span_ended (setStatus c msg s) = span_ended s"
  "span_ended (end_span s) = Suc (span_ended s)"
  "span_ended (new_span n) = 0"
  by (simp_all add: setAttributes_def addEvent_def recordException_def setStatus_def
        end_span_def new_span_def)

lemma span_name_ops [simp]:
  "span_name (setAttributes kvs s) = span_name s"
  "span_name (addEvent n kvs s) = span_name s"
  "span_name (recordException e s) = span_name s"
  "span_name (setStatus c msg s) = span_name s"
  "span_name (end_span s) = span_name s"
  "span_name (new_span n) = n"
  by (simp_all add: setAttributes_def addEvent_def recordException_def setStatus_def
        end_span_def new_span_def)

lemma throws_at_None [simp]: "fault ev = None \<Longrightarrow> throws_at ev k = None"
  by (simp add: throws_at_def)

lemma throws_at_Some [simp]:
  "fault ev = Some (n, e) \<Longrightarrow> throws_at ev k = (if n = k then Some e else None)"
  by (simp add: throws_at_def)

subsection \<open>The spans\<close>

text \<open>The \<^verbatim>\<open>try\<close> block of \<^verbatim>\<open>/db-query\<close> works on its own span only and does not end it,
  wherever it stops.\<close>

lemma db_try_spans:
  assumes "spans w = xs @ [s]"
  shows "\<exists>s'. spans (snd (db_try ev (length xs) w)) = xs @ [s'] \<and>
              span_ended s' = span_ended s \<and> span_name s' = span_name s"
  using assms by (simp add: db_try_def Let_def split: option.splits)

lemma db_query_spans:
  "\<exists>c. spans (snd (db_query ev w)) = spans w @ [c] \<and>
        span_name c = ''database_query'' \<and> span_ended c = 1"
proof -
  let ?w0 = "w\<lparr>spans := spans w @ [new_span ''database_query'']\<rparr>"
  obtain r w1 where t: "db_try ev (length (spans w)) ?w0 = (r, w1)"
    by (cases "db_try ev (length (spans w)) ?w0")
  have "spans ?w0 = spans w @ [new_span ''database_query'']"
    by simp
  from db_try_spans [OF this, of ev]
  obtain s' where s': "spans w1 = spans w @ [s']" "span_ended s' = 0"
      "span_name s' = ''database_query''"
    using t by auto
  show ?thesis
    using t s' by (cases r) (simp_all add: db_query_def startSpan_def Let_def)
qed

lemma sync_spans:
  "spans (snd (health ev w)) = spans w"
  "spans (snd (hello ev w)) = spans w"
  "spans (snd (flaky ev w)) = spans w"
  "spans (snd (cpu_intensive ev w)) = spans w"
  "spans (snd (memory ev w)) = spans w"
  "spans (snd (metrics_demo ev w)) = spans w"
  "spans (snd (not_found ev req w)) = spans w"
  by (simp_all add: health_def hello_def hello_sync_def flaky_def cpu_intensive_def
        memory_def metrics_demo_def createGauge_def gauge_record_def not_found_def Let_def
        split: option.splits prod.splits)

lemma dispatch_spans:
  "\<exists>new. spans (snd (dispatch m ev req w)) = spans w @ new \<and>
         list_all (\<lambda>c. span_ended c = 1) new \<and>
         length new = (if route_of m req = DbQuery then 1 else 0)"
proof -
  obtain c where "spans (snd (db_query ev w)) = spans w @ [c]" "span_ended c = 1"
    using db_query_spans by blast
  then show ?thesis
    by (cases "route_of m req") (simp_all add: dispatch_def sync_spans)
qed

lemma error_handler_spans: "spans (snd (error_handler err w)) = spans w"
  by (simp add: error_handler_def Let_def)

lemma middleware_entry_eq:
  "middleware_entry req w =
     ((clock w, length (spans w)),
      w\<lparr>spans := spans w @ [setAttributes
            [(''http.method'', JStr (req_method req)),
             (''http.url'', JStr (req_url req)),
             (''http.user_agent'', JStr (user_agent_or_unknown req))]
            (new_span (req_method req @ '' '' @ req_path req))],
        httpRequestsTotal := httpRequestsTotal w @
            [(1, [(''method'', req_method req), (''endpoint'', req_path req)])],
        activeConnections := activeConnections w + 1\<rparr>)"
  by (simp add: middleware_entry_def startSpan_def on_span_def Let_def)

lemma on_finish_spans:
  "spans w = xs @ s # ys \<Longrightarrow>
   spans (on_finish req res t (length xs) w) =
     xs @ end_span (setAttributes
            [(''http.status_code'', JNum (of_nat (statusCode res))),
             (''http.response_size'',
                (case content_length res of Some v \<Rightarrow> v | None \<Rightarrow> JNum 0))] s) # ys"
  by (simp add: on_finish_def on_span_def Let_def)

lemma on_finish_fields [simp]:
  "activeConnections (on_finish req res t sid w) = activeConnections w - 1"
  "httpRequestDuration (on_finish req res t sid w) = httpRequestDuration w @
     [(duration (clock w) t, [(''method'', req_method req), (''endpoint'', req_path req),
        (''status_code'', decimal (statusCode res))])]"
  "httpRequestsTotal (on_finish req res t sid w) = httpRequestsTotal w"
  "clock (on_finish req res t sid w) = clock w"
  "instruments (on_finish req res t sid w) = instruments w"
  "active_span (on_finish req res t sid w) = active_span w"
  by (simp_all add: on_finish_def Let_def)

lemma handle_request_eq:
  "handle_request m ev req w =
     (fst (before_finish m ev req w),
      on_finish req (fst (before_finish m ev req w)) (clock w) (length (spans w))
        (snd (before_finish m ev req w)))"
  by (simp add: handle_request_def before_finish_def middleware_entry_eq Let_def
        split: prod.splits)

lemma handle_request_answer:
  "fst (handle_request m ev req w) =
     answer (dispatch m ev req (snd (middleware_entry req (w\<lparr>active_span := ambient ev\<rparr>))))"
  by (simp add: handle_request_def answer_def Let_def split_beta split: sum.splits)

lemma before_finish_spans:
  "\<exists>new. spans (snd (before_finish m ev req w)) =
      spans w @ setAttributes
            [(''http.method'', JStr (req_method req)),
             (''http.url'', JStr (req_url req)),
             (''http.user_agent'', JStr (user_agent_or_unknown req))]
            (new_span (req_method req @ '' '' @ req_path req)) # new
    \<and> list_all (\<lambda>c. span_ended c = 1) new
    \<and> length new = (if route_of m req = DbQuery then 1 else 0)"
proof -
  let ?w1 = "snd (middleware_entry req (w\<lparr>active_span := ambient ev\<rparr>))"
  let ?d = "dispatch m ev req ?w1"
  obtain new where n: "spans (snd ?d) = spans ?w1 @ new"
      "list_all (\<lambda>c. span_ended c = 1) new"
      "length new = (if route_of m req = DbQuery then 1 else 0)"
    using dispatch_spans by blast
  have "spans (snd (before_finish m ev req w)) = spans (snd ?d)"
    using error_handler_spans [of _ "snd ?d"]
    by (cases "fst ?d") (simp_all add: before_finish_def Let_def split_beta)
  then show ?thesis
    using n by (simp add: middleware_entry_eq)
qed

subsection \<open>The metrics\<close>

lemma db_try_keeps: "keeps w (snd (db_try ev sid w))"
  by (simp add: db_try_def keeps_def Let_def split: option.splits)

lemma db_query_keeps: "keeps w (snd (db_query ev w))"
  using db_try_keeps [of "w\<lparr>spans := spans w @ [new_span ''database_query'']\<rparr>" ev
      "length (spans w)"]
  by (auto simp add: db_query_def startSpan_def keeps_def Let_def
        split: prod.splits sum.splits)

lemma sync_keeps:
  "keeps w (snd (health ev w))"
  "keeps w (snd (hello ev w))"
  "keeps w (snd (flaky ev w))"
  "keeps w (snd (cpu_intensive ev w))"
  "keeps w (snd (memory ev w))"
  "keeps w (snd (metrics_demo ev w))"
  "keeps w (snd (not_found ev req w))"
  by (simp_all add: keeps_def health_def hello_def hello_sync_def flaky_def cpu_intensive_def
        memory_def metrics_demo_def createGauge_def gauge_record_def not_found_def Let_def
        split: option.splits prod.splits)

lemma dispatch_keeps: "keeps w (snd (dispatch m ev req w))"
  by (cases "route_of m req") (simp_all add: dispatch_def sync_keeps db_query_keeps)

lemma error_handler_keeps: "keeps w (snd (error_handler err w))"
  by (simp add: error_handler_def keeps_def Let_def)

lemma before_finish_keeps:
  "activeConnections (snd (before_finish m ev req w)) = activeConnections w + 1"
  "httpRequestDuration (snd (before_finish m ev req w)) = httpRequestDuration w"
proof -
  let ?w1 = "snd (middleware_entry req (w\<lparr>active_span := ambient ev\<rparr>))"
  let ?d = "dispatch m ev req ?w1"
  have k: "keeps ?w1 (snd ?d)"
    by (rule dispatch_keeps)
  have e: "keeps (snd ?d) (snd (error_handler err (snd ?d)))" for err
    by (rule error_handler_keeps)
  show "activeConnections (snd (before_finish m ev req w)) = activeConnections w + 1"
    using k e
    by (cases "fst ?d")
       (simp_all add: before_finish_def keeps_def middleware_entry_eq Let_def split_beta)
  show "httpRequestDuration (snd (before_finish m ev req w)) = httpRequestDuration w"
    using k e
    by (cases "fst ?d")
       (simp_all add: before_finish_def keeps_def middleware_entry_eq Let_def split_beta)
qed

text \<open>However the steps of several requests interleave, the counter stands at its old
  value plus the requests that have arrived and not finished.\<close>

lemma activeConnections_in_flight:
  "activeConnections (fold step es w) =
     activeConnections w + int (arrivals es) - int (finishes es)"
proof (induction es arbitrary: w)
  case Nil
  show ?case by simp
next
  case (Cons e es)
  show ?case
  proof (cases e)
    case (Arrives req)
    then show ?thesis
      using Cons.IH [of "step e w"] by (simp add: middleware_entry_eq)
  next
    case (Handles m ev req)
    then show ?thesis
      using Cons.IH [of "step e w"] dispatch_keeps [of w m ev req] by (simp add: keeps_def)
  next
    case (Catches err)
    then show ?thesis
      using Cons.IH [of "step e w"] error_handler_keeps [of w err] by (simp add: keeps_def)
  next
    case (Finishes req res startTime sid)
    then show ?thesis
      using Cons.IH [of "step e w"] by simp
  qed
qed

subsection \<open>The instruments\<close>

lemma sync_instruments:
  "instruments (snd (health ev w)) = instruments w"
  "instruments (snd (hello ev w)) = instruments w"
  "instruments (snd (flaky ev w)) = instruments w"
  "instruments (snd (cpu_intensive ev w)) = instruments w"
  "instruments (snd (memory ev w)) = instruments w"
  "instruments (snd (not_found ev req w)) = instruments w"
  "instruments (snd (db_try ev sid w)) = instruments w"
  "instruments (snd (error_handler err w)) = instruments w"
  "instruments (snd (middleware_entry req w)) = instruments w"
  by (simp_all add: health_def hello_def hello_sync_def flaky_def cpu_intensive_def
        memory_def not_found_def db_try_def error_handler_def middleware_entry_eq Let_def
        split: option.splits prod.splits)

lemma db_query_instruments: "instruments (snd (db_query ev w)) = instruments w"
  using sync_instruments(7) [of ev "length (spans w)"
      "w\<lparr>spans := spans w @ [new_span ''database_query'']\<rparr>"]
  by (simp add: db_query_def startSpan_def Let_def split_beta split: sum.splits)

lemma metrics_demo_instruments:
  "instruments (snd (metrics_demo ev w)) =
     instruments w @ (if throws_at ev 0 = None
                      then [(Gauge, ''demo_custom_value''), (Gauge, ''room_temperature_celsius'')]
                      else [])"
  by (simp add: metrics_demo_def createGauge_def gauge_record_def Let_def split: option.splits)

lemma dispatch_instruments:
  "instruments (snd (dispatch m ev req w)) =
     instruments w @ (if route_of m req = MetricsDemo \<and> throws_at ev 0 = None
                      then [(Gauge, ''demo_custom_value''), (Gauge, ''room_temperature_celsius'')]
                      else [])"
  by (cases "route_of m req")
     (simp_all add: dispatch_def sync_instruments db_query_instruments metrics_demo_instruments)

lemma before_finish_instruments:
  "instruments (snd (before_finish m ev req w)) =
     instruments (snd (dispatch m ev req
        (snd (middleware_entry req (w\<lparr>active_span := ambient ev\<rparr>)))))"
  by (cases "fst (dispatch m ev req (snd (middleware_entry req (w\<lparr>active_span := ambient ev\<rparr>))))")
     (simp_all add: before_finish_def Let_def split_beta sync_instruments)

subsection \<open>The responses\<close>

lemma error_handler_response:
  "fst (error_handler err w) =
     res_json 500 (JObj [(''error'', JStr ''Internal Server Error''),
                         (''timestamp'', JDate (clock w))])"
  by (simp add: error_handler_def Let_def)

text \<open>Which error is thrown does not show in the answer of any handler.\<close>

lemma answer_any_error:
  "answer (health (ev\<lparr>fault := Some (k, e)\<rparr>) w) = answer (health (ev\<lparr>fault := Some (k, e')\<rparr>) w)"
  "answer (hello (ev\<lparr>fault := Some (k, e)\<rparr>) w) = answer (hello (ev\<lparr>fault := Some (k, e')\<rparr>) w)"
  "answer (flaky (ev\<lparr>fault := Some (k, e)\<rparr>) w) = answer (flaky (ev\<lparr>fault := Some (k, e')\<rparr>) w)"
  "answer (cpu_intensive (ev\<lparr>fault := Some (k, e)\<rparr>) w) =
     answer (cpu_intensive (ev\<lparr>fault := Some (k, e')\<rparr>) w)"
  "answer (memory (ev\<lparr>fault := Some (k, e)\<rparr>) w) = answer (memory (ev\<lparr>fault := Some (k, e')\<rparr>) w)"
  "answer (metrics_demo (ev\<lparr>fault := Some (k, e)\<rparr>) w) =
     answer (metrics_demo (ev\<lparr>fault := Some (k, e')\<rparr>) w)"
  "answer (not_found (ev\<lparr>fault := Some (k, e)\<rparr>) req w) =
     answer (not_found (ev\<lparr>fault := Some (k, e')\<rparr>) req w)"
        apply (simp add: answer_def error_handler_response health_def)
       apply (simp add: answer_def error_handler_response hello_def hello_sync_def
          hello_delay_def hello_callback_def Let_def)
      apply (simp add: answer_def error_handler_response flaky_def Let_def)
     apply (simp add: answer_def error_handler_response cpu_intensive_def Let_def split_beta)
    apply (simp add: answer_def error_handler_response memory_def Let_def)
   apply (simp add: answer_def error_handler_response metrics_demo_def createGauge_def
      gauge_record_def Let_def)
  apply (simp add: answer_def error_handler_response not_found_def Let_def)
  done

lemma db_try_any_error:
  "(case fst (db_try (ev\<lparr>fault := Some (k, e)\<rparr>) sid w) of
      Inr res \<Rightarrow> Some res | Inl err \<Rightarrow> None) =
   (case fst (db_try (ev\<lparr>fault := Some (k, e')\<rparr>) sid w) of
      Inr res \<Rightarrow> Some res | Inl err \<Rightarrow> None)"
  by (simp add: db_try_def Let_def)

lemma db_query_any_error:
  "answer (db_query (ev\<lparr>fault := Some (k, e)\<rparr>) w) =
   answer (db_query (ev\<lparr>fault := Some (k, e')\<rparr>) w)"
  using db_try_any_error [where ev = ev and k = k and e = e and e' = e'
      and sid = "length (spans w)"
      and w = "w\<lparr>spans := spans w @ [new_span ''database_query'']\<rparr>"]
  by (simp add: answer_def db_query_def startSpan_def Let_def split_beta split: sum.splits)

lemma dispatch_any_error:
  "answer (dispatch m (ev\<lparr>fault := Some (k, e)\<rparr>) req w) =
   answer (dispatch m (ev\<lparr>fault := Some (k, e')\<rparr>) req w)"
  by (cases "route_of m req") (simp_all add: dispatch_def answer_any_error db_query_any_error)

subsection \<open>The arithmetic\<close>

text \<open>An integer number of milliseconds divided by 1000 has at most 3 decimals, so the
  quotient of line 43 is its own rounding.\<close>

lemma duration_rounded: "duration now start = elapsed_seconds_spec now start"
proof -
  have "real_of_int (now - start) / 1000 * 1000 = real_of_int (now - start)"
    by simp
  then show ?thesis
    unfolding duration_def elapsed_seconds_spec_def by (simp only: round_of_int)
qed

text \<open>The loop of \<^verbatim>\<open>/cpu-intensive\<close> stops at \<open>i = iterations\<close> with the sum of its
  terms.\<close>

lemma cpu_loop_eq:
  "i \<le> n \<Longrightarrow> cpu_loop rnd n i acc = (n, acc + (\<Sum>k = i..<n. sqrt (real k) * rnd k))"
proof (induction rnd n i acc rule: cpu_loop.induct)
  case (1 rnd iterations i result)
  show ?case
  proof (cases "i < iterations")
    case True
    with "1.IH" show ?thesis
      by (subst cpu_loop.simps) (simp add: sum.atLeast_Suc_lessThan add.assoc)
  next
    case False
    with "1.prems" show ?thesis
      by (subst cpu_loop.simps) simp
  qed
qed

subsection \<open>Rounding to a double\<close>

lemma rne_error: "\<bar>of_int (rne x) - x\<bar> \<le> 1 / 2"
  unfolding rne_def Let_def by (simp; linarith)

lemma rne_ge_int: "of_int n \<le> x \<Longrightarrow> n \<le> rne x"
  unfolding rne_def Let_def by (simp add: le_floor_iff) linarith

text \<open>The rounding moves a number by at most half a unit in the last place.\<close>

lemma to_double_error: "\<bar>to_double x - x\<bar> \<le> 2 powi double_exp x / 2"
proof (cases "x = 0")
  case True
  then show ?thesis by (simp add: to_double_def)
next
  case False
  let ?p = "(2::real) powi double_exp x"
  have p: "0 < ?p" by simp
  have "to_double x - x = (of_int (rne (x / ?p)) - x / ?p) * ?p"
    using False p by (simp add: to_double_def field_simps)
  then have "\<bar>to_double x - x\<bar> = \<bar>of_int (rne (x / ?p)) - x / ?p\<bar> * ?p"
    using p by (simp add: abs_mult)
  also have "\<dots> \<le> 1 / 2 * ?p"
    using rne_error [of "x / ?p"] p by (intro mult_right_mono) simp_all
  finally show ?thesis by simp
qed

lemma double_exp_le:
  assumes "0 < x" and "x < 512"
  shows "double_exp x \<le> - 44"
proof -
  have "log 2 x < 9"
    using assms by (simp add: log_less_iff)
  then have "\<lfloor>log 2 x\<rfloor> < 9"
    by (simp add: floor_less_iff)
  then show ?thesis
    using assms by (simp add: double_exp_def)
qed

lemma to_double_near:
  assumes "0 \<le> x" and "x < 512"
  shows "\<bar>to_double x - x\<bar> \<le> 1 / 2 ^ 45"
proof (cases "x = 0")
  case True
  then show ?thesis by (simp add: to_double_def)
next
  case False
  then have "double_exp x \<le> - 44"
    using assms double_exp_le by simp
  then have "(2::real) powi double_exp x \<le> 2 powi (- 44)"
    by (intro power_int_increasing) simp_all
  moreover have "(2::real) powi (- 44) = 1 / 2 ^ 44"
    by (simp add: power_int_minus field_simps)
  ultimately have "(2::real) powi double_exp x / 2 \<le> 1 / 2 ^ 45"
    by simp
  then show ?thesis
    using to_double_error [of x] by linarith
qed

text \<open>An integer is a double (below 512, where the unit in the last place is at most
  \<open>1 / 2 ^ 44\<close>), and the rounding of a number above it does not fall below it.\<close>

lemma to_double_ge_int:
  assumes "of_int n \<le> x" and "0 < x" and "x < 512"
  shows "of_int n \<le> to_double x"
proof -
  let ?e = "double_exp x"
  have e: "?e \<le> - 44"
    using assms double_exp_le by simp
  have pos: "x \<noteq> 0" using assms by simp
  have sc: "(2::real) powi ?e = 1 / 2 ^ nat (- ?e)"
    using e by (simp add: power_int_def field_simps)
  have "of_int (n * 2 ^ nat (- ?e)) \<le> x / 2 powi ?e"
    using assms(1) by (simp add: sc field_simps)
  then have "n * 2 ^ nat (- ?e) \<le> rne (x / 2 powi ?e)"
    by (rule rne_ge_int)
  then have "of_int (n * 2 ^ nat (- ?e)) \<le> (of_int (rne (x / 2 powi ?e)) :: real)"
    by (simp only: of_int_le_iff)
  then have "real_of_int n \<le> real_of_int (rne (x / 2 powi ?e)) * 2 powi ?e"
    by (simp add: sc field_simps)
  then show ?thesis
    using pos by (simp add: to_double_def)
qed

lemma to_double_nonneg: "0 \<le> x \<Longrightarrow> 0 \<le> to_double x"
proof -
  assume "0 \<le> x"
  then have "0 \<le> x / 2 powi double_exp x" by simp
  then have "0 \<le> rne (x / 2 powi double_exp x)"
    using rne_ge_int [of 0 "x / 2 powi double_exp x"] by simp
  then show ?thesis
    by (simp add: to_double_def)
qed

text \<open>The rounding of a number between \<open>2 ^ k\<close> and \<open>2 ^ (k + 1)\<close>, in the normal
  range.\<close>

lemma to_double_eq:
  assumes "2 powi k \<le> \<bar>x\<bar>" and "\<bar>x\<bar> < 2 powi (k + 1)" and "- 1022 \<le> k"
  shows "to_double x = of_int (rne (x * 2 powi (52 - k))) / 2 powi (52 - k)"
proof -
  have p: "0 < (2::real) powi k"
    by simp
  have "0 < \<bar>x\<bar>"
    using p assms(1) by (rule less_le_trans)
  then have x: "x \<noteq> 0"
    by simp
  have pw: "(2::real) powr real_of_int j = 2 powi j" for j
    by (rule powr_real_of_int') simp_all
  have "(2::real) powr real_of_int k \<le> \<bar>x\<bar>"
    and "\<bar>x\<bar> < 2 powr (real_of_int k + 1)"
    using assms(1,2) pw [of k] pw [of "k + 1"] by simp_all
  then have "\<lfloor>log 2 \<bar>x\<bar>\<rfloor> = k"
    using x by (subst floor_log_eq_powr_iff) simp_all
  then have e: "double_exp x = k - 52"
    using assms(3) by (simp add: double_exp_def)
  have i: "(2::real) powi (k - 52) = inverse (2 powi (52 - k))"
    using power_int_minus [of "2::real" "52 - k"] by simp
  show ?thesis
    using x by (simp add: to_double_def e i divide_inverse)
qed



text \<open>The products of line 75 at the draws 1/2 and 9/1024 are doubles.\<close>

lemma to_double_250: "to_double 250 = 250"
proof -
  have "to_double 250 = of_int (rne (250 * 2 powi (52 - 7))) / 2 powi (52 - 7)"
    by (rule to_double_eq) simp_all
  moreover have "250 * (2::real) powi (52 - 7) = of_int 8796093022208000"
    by simp
  ultimately show ?thesis
    by (simp add: rne_def)
qed

lemma to_double_1125_256: "to_double (1125 / 256) = 1125 / 256"
proof -
  have "to_double (1125 / 256) = of_int (rne (1125 / 256 * 2 powi (52 - 2))) / 2 powi (52 - 2)"
    by (rule to_double_eq) simp_all
  moreover have "1125 / 256 * (2::real) powi (52 - 2) = of_int 4947802324992000"
    by simp
  ultimately show ?thesis
    by (simp add: rne_def)
qed

text \<open>A product just below 344 that rounds up to 344: the draw is
  \<open>3098476543630901 / 2 ^ 52\<close>, and the floor of the exact product is 343.\<close>

lemma to_double_rounds_up:
  "\<lfloor>to_double (3098476543630901 / 2 ^ 52 * 500)\<rfloor> = 344 \<and>
   \<lfloor>3098476543630901 / 2 ^ 52 * (500::real)\<rfloor> = 343"
proof -
  let ?x = "3098476543630901 / 2 ^ 52 * (500::real)"
  have "to_double ?x = of_int (rne (?x * 2 powi (52 - 8))) / 2 powi (52 - 8)"
    by (rule to_double_eq) simp_all
  moreover have "?x * (2::real) powi (52 - 8) = 387309567953862625 / 64"
    by simp
  moreover have "rne (387309567953862625 / 64) = 6051711999279104"
    by (simp add: rne_def Let_def)
  ultimately show ?thesis
    by simp
qed

subsection \<open>The delay of \<^verbatim>\<open>/hello\<close>\<close>

text \<open>A draw is a double below 1, so at most \<open>1 - 1 / 2 ^ 53\<close>.\<close>

lemma hello_delay_range:
  assumes "0 \<le> random ev 0" and "random ev 0 \<le> 1 - 1 / 2 ^ 53"
  shows "0 \<le> hello_delay ev \<and> hello_delay ev < 500"
proof -
  let ?x = "random ev 0 * 500"
  have x: "0 \<le> ?x" "?x \<le> 500 - 500 / 2 ^ 53"
    using assms by simp_all
  then have "\<bar>to_double ?x - ?x\<bar> \<le> 1 / 2 ^ 45"
    by (intro to_double_near) simp_all
  then have "to_double ?x \<le> 500 - 500 / 2 ^ 53 + 1 / 2 ^ 45"
    using x(2) by linarith
  also have "\<dots> < 500"
    by simp
  finally have "\<lfloor>to_double ?x\<rfloor> < 500"
    by (simp add: floor_less_iff)
  moreover have "0 \<le> \<lfloor>to_double ?x\<rfloor>"
    using x(1) by (simp add: to_double_nonneg)
  ultimately show ?thesis
    by (simp add: hello_delay_def)
qed

text \<open>The delay is \<open>d\<close> on the draws whose exact product is in \<open>[d, d + 1)\<close>, except
  that a product less than \<open>1 / 2 ^ 45\<close> below an integer may round up to it.\<close>

lemma hello_delay_outer:
  assumes "0 \<le> random ev 0" and "random ev 0 < 1" and "hello_delay ev = d"
  shows "of_int d - 1 / 2 ^ 45 \<le> random ev 0 * 500 \<and> random ev 0 * 500 < of_int d + 1"
proof -
  let ?x = "random ev 0 * 500"
  have x: "0 \<le> ?x" "?x < 512"
    using assms(1,2) by simp_all
  have d: "of_int d \<le> to_double ?x" "to_double ?x < of_int d + 1"
    using assms(3) by (simp_all add: hello_delay_def floor_eq_iff)
  have "\<bar>to_double ?x - ?x\<bar> \<le> 1 / 2 ^ 45"
    using x by (rule to_double_near)
  then have lower: "of_int d - 1 / 2 ^ 45 \<le> ?x"
    using d(1) by linarith
  have upper: "?x < of_int d + 1"
  proof (rule ccontr)
    assume "\<not> ?x < of_int d + 1"
    then have ge: "of_int (d + 1) \<le> ?x"
      by simp
    have "0 \<le> to_double ?x"
      using x(1) by (rule to_double_nonneg)
    then have "0 < real_of_int d + 1"
      using d(2) by linarith
    then have "0 < ?x"
      using ge by simp
    then have "of_int (d + 1) \<le> to_double ?x"
      using ge x(2) by (intro to_double_ge_int)
    then show False
      using d(2) by simp
  qed
  show ?thesis
    using lower upper by simp
qed

lemma hello_delay_inner:
  assumes "0 \<le> random ev 0" and "random ev 0 < 1"
    and "of_int d \<le> random ev 0 * 500" and "random ev 0 * 500 < of_int d + 1 - 1 / 2 ^ 45"
  shows "hello_delay ev = d"
proof -
  let ?x = "random ev 0 * 500"
  have x: "0 \<le> ?x" "?x < 512"
    using assms(1,2) by simp_all
  have "\<bar>to_double ?x - ?x\<bar> \<le> 1 / 2 ^ 45"
    using x by (rule to_double_near)
  then have upper: "to_double ?x < of_int d + 1"
    using assms(4) by linarith
  have lower: "of_int d \<le> to_double ?x"
  proof (cases "?x = 0")
    case True
    then show ?thesis
      using assms(3) by (simp add: to_double_def)
  next
    case False
    then have "0 < ?x"
      using x(1) by simp
    then show ?thesis
      using assms(3) x(2) by (intro to_double_ge_int)
  qed
  show ?thesis
    using lower upper by (simp add: hello_delay_def floor_eq_iff)
qed

subsection \<open>The failing draws of \<^verbatim>\<open>/flaky\<close>\<close>



section \<open>The claims\<close>

subsection \<open>C1: every span is ended exactly once\<close>

text \<open>
  Claim C1. Every span started while a request is handled is ended exactly once, on every
  path. After \<open>handle_request\<close> the spans that were there before are untouched and the
  new ones are the middleware's span, named \<^verbatim>\<open>METHOD path\<close> and ended once by the
  \<^verbatim>\<open>finish\<close> callback, followed by the spans the route handler started (one for
  \<^verbatim>\<open>/db-query\<close>, none otherwise), each ended once. This holds for every route (so for the
  404 handler), for every random draw (so for both outcomes of \<^verbatim>\<open>/flaky\<close>) and for every
  fault (so when the handler throws and the error handler answers). The second part is
  the \<^verbatim>\<open>/db-query\<close> handler by itself: it starts one span and has ended it once when it
  returns, also when its \<^verbatim>\<open>try\<close> block throws.
\<close>

theorem every_span_ended_once:
  "(\<exists>s new. spans (snd (handle_request m ev req w)) = spans w @ s # new \<and>
      span_name s = req_method req @ '' '' @ req_path req \<and> span_ended s = 1 \<and>
      list_all (\<lambda>c. span_ended c = 1) new \<and>
      length new = (if route_of m req = DbQuery then 1 else 0)) \<and>
   (\<exists>c. spans (snd (db_query ev w)) = spans w @ [c] \<and>
      span_name c = ''database_query'' \<and> span_ended c = 1)"
proof
  obtain new where n: "spans (snd (before_finish m ev req w)) =
      spans w @ setAttributes
            [(''http.method'', JStr (req_method req)),
             (''http.url'', JStr (req_url req)),
             (''http.user_agent'', JStr (user_agent_or_unknown req))]
            (new_span (req_method req @ '' '' @ req_path req)) # new"
      "list_all (\<lambda>c. span_ended c = 1) new"
      "length new = (if route_of m req = DbQuery then 1 else 0)"
    using before_finish_spans by blast
  show "\<exists>s new. spans (snd (handle_request m ev req w)) = spans w @ s # new \<and>
      span_name s = req_method req @ '' '' @ req_path req \<and> span_ended s = 1 \<and>
      list_all (\<lambda>c. span_ended c = 1) new \<and>
      length new = (if route_of m req = DbQuery then 1 else 0)"
    using n(2,3) by (simp add: handle_request_eq on_finish_spans [OF n(1)])
  show "\<exists>c. spans (snd (db_query ev w)) = spans w @ [c] \<and>
      span_name c = ''database_query'' \<and> span_ended c = 1"
    by (rule db_query_spans)
qed

text \<open>A \<^verbatim>\<open>/db-query\<close> request whose query throws: both of its spans are ended once.\<close>

theorem every_span_ended_once_witness:
  "map span_ended (spans (snd (handle_request exact_get throwing_env
      (get_request ''/db-query'') (startup 0)))) = [1, 1]"
  using every_span_ended_once [of exact_get throwing_env "get_request ''/db-query''" "startup 0"]
  by (auto simp add: route_of_def exact_get_def get_request_def startup_def length_Suc_conv)

subsection \<open>C2: the recorded duration\<close>

text \<open>
  Claim C2. The \<^verbatim>\<open>finish\<close> callback appends one record to the duration histogram, and
  its value is the elapsed milliseconds (the clock now minus the start time) divided by
  1000, rounded to 3 decimals. For a whole request the start time is the clock at its
  arrival and now is the clock at its \<^verbatim>\<open>finish\<close> event.
\<close>

theorem finish_records_elapsed_seconds:
  "httpRequestDuration (on_finish req res startTime sid w) =
     httpRequestDuration w @
       [(elapsed_seconds_spec (clock w) startTime,
         [(''method'', req_method req), (''endpoint'', req_path req),
          (''status_code'', decimal (statusCode res))])] \<and>
   httpRequestDuration (snd (handle_request m ev req w)) =
     httpRequestDuration w @
       [(elapsed_seconds_spec (clock (snd (handle_request m ev req w))) (clock w),
         [(''method'', req_method req), (''endpoint'', req_path req),
          (''status_code'', decimal (statusCode (fst (handle_request m ev req w))))])]"
proof
  show "httpRequestDuration (on_finish req res startTime sid w) =
     httpRequestDuration w @
       [(elapsed_seconds_spec (clock w) startTime,
         [(''method'', req_method req), (''endpoint'', req_path req),
          (''status_code'', decimal (statusCode res))])]"
    by (simp add: duration_rounded)
next
  let ?b = "before_finish m ev req w"
  have run: "handle_request m ev req w =
      (fst ?b, on_finish req (fst ?b) (clock w) (length (spans w)) (snd ?b))"
    by (rule handle_request_eq)
  have "httpRequestDuration (snd ?b) = httpRequestDuration w"
    by (rule before_finish_keeps)
  then show "httpRequestDuration (snd (handle_request m ev req w)) =
     httpRequestDuration w @
       [(elapsed_seconds_spec (clock (snd (handle_request m ev req w))) (clock w),
         [(''method'', req_method req), (''endpoint'', req_path req),
          (''status_code'', decimal (statusCode (fst (handle_request m ev req w))))])]"
    unfolding run by (simp add: duration_rounded)
qed

text \<open>A response that finishes 125 ms after the request arrived: 0.125 s is recorded.\<close>

theorem finish_records_elapsed_seconds_witness:
  "httpRequestDuration
     (on_finish (get_request ''/health'') (res_json 200 (JStr ''ok'')) 1000 0 (startup 1125)) =
   [(1 / 8, [(''method'', ''GET''), (''endpoint'', ''/health''), (''status_code'', ''200'')])]"
  using finish_records_elapsed_seconds [of "get_request ''/health''"
      "res_json 200 (JStr ''ok'')" 1000 0 "startup 1125", THEN conjunct1]
  by (simp add: elapsed_seconds_spec_def get_request_def res_json_def startup_def
        decimal.simps digit_def)

subsection \<open>C3: the flaky endpoint\<close>




subsection \<open>C4: where the instruments are created\<close>

text \<open>
  Claim C4, as stated, fails: the gauges are not created at startup but by the
  \<^verbatim>\<open>/metrics-demo\<close> handler, which calls \<^verbatim>\<open>meter.createGauge\<close> twice on each request
  (lines 197 and 200). After startup and one \<^verbatim>\<open>GET /metrics-demo\<close> there are two
  instruments more than at startup, and after a second one four more.
\<close>

theorem instruments_counterexample:
  "instruments (startup 0) =
     [(Counter, ''http_requests_total''),
      (Histogram, ''http_request_duration_seconds''),
      (UpDownCounter, ''active_connections'')] \<and>
   instruments (snd (handle_request exact_get quiet_env (get_request ''/metrics-demo'')
      (startup 0))) =
     [(Counter, ''http_requests_total''),
      (Histogram, ''http_request_duration_seconds''),
      (UpDownCounter, ''active_connections''),
      (Gauge, ''demo_custom_value''),
      (Gauge, ''room_temperature_celsius'')] \<and>
   instruments (snd (handle_request exact_get quiet_env (get_request ''/metrics-demo'')
      (snd (handle_request exact_get quiet_env (get_request ''/metrics-demo'') (startup 0))))) =
     [(Counter, ''http_requests_total''),
      (Histogram, ''http_request_duration_seconds''),
      (UpDownCounter, ''active_connections''),
      (Gauge, ''demo_custom_value''),
      (Gauge, ''room_temperature_celsius''),
      (Gauge, ''demo_custom_value''),
      (Gauge, ''room_temperature_celsius'')] \<and>
   instruments (snd (handle_request exact_get quiet_env (get_request ''/metrics-demo'')
      (startup 0))) \<noteq> instruments (startup 0)"
  by (simp add: handle_request_eq before_finish_instruments dispatch_instruments
        sync_instruments route_of_def exact_get_def get_request_def quiet_env_def
        startup_def throws_at_def)

text \<open>
  Claim C4, amended. The counter, the histogram and the up/down counter are created once,
  at startup, and nothing else is. A request creates instruments only when it is routed
  to \<^verbatim>\<open>/metrics-demo\<close> and the handler does not throw: then it creates the two gauges,
  on every such request. Every other handler, the middleware and the error handler only
  write to instruments that exist.
\<close>

theorem instruments_created_at_startup_and_by_metrics_demo:
  "instruments (startup t) =
     [(Counter, ''http_requests_total''),
      (Histogram, ''http_request_duration_seconds''),
      (UpDownCounter, ''active_connections'')] \<and>
   instruments (snd (handle_request m ev req w)) =
     instruments w @ (if route_of m req = MetricsDemo \<and> throws_at ev 0 = None
                      then [(Gauge, ''demo_custom_value''), (Gauge, ''room_temperature_celsius'')]
                      else [])"
  by (simp add: startup_def handle_request_eq before_finish_instruments dispatch_instruments
        sync_instruments)

text \<open>A \<^verbatim>\<open>GET /flaky\<close> request creates no instrument.\<close>

theorem instruments_created_at_startup_and_by_metrics_demo_witness:
  "instruments (snd (handle_request exact_get quiet_env (get_request ''/flaky'') (startup 0))) =
     instruments (startup 0)"
  using instruments_created_at_startup_and_by_metrics_demo
          [of 0 exact_get quiet_env "get_request ''/flaky''" "startup 0"]
  by (simp add: route_of_def exact_get_def get_request_def)

subsection \<open>C5: the delay of the hello endpoint\<close>

text \<open>
  Claim C5, as stated, fails where it speaks of the time waited: the \<^verbatim>\<open>delay\<close> field is
  the delay the timer was asked for, and the handler does not measure the wait. With the
  draw 9/1024 the delay is 4 and the body says 4, while the timer's callback ran 3 ms
  after the timer was armed: the response was sent before the full delay had passed on
  the clock, and the field is not the time waited.
\<close>

theorem hello_delay_field_counterexample:
  "delay_field (hello early_env (startup 0)) = Some (JNum 4) \<and>
   waited (startup 0) (hello early_env (startup 0)) = 3 \<and>
   delay_field (hello early_env (startup 0)) \<noteq>
     Some (JNum (of_int (waited (startup 0) (hello early_env (startup 0)))))"
proof -
  have "random early_env 0 * 500 = 1125 / 256"
    by (simp add: early_env_def quiet_env_def)
  then have "hello_delay early_env = \<lfloor>(1125 / 256 :: real)\<rfloor>"
    by (simp only: hello_delay_def to_double_1125_256)
  then have "hello_delay early_env = 4"
    by simp
  then show ?thesis
    by (simp add: hello_def hello_sync_def hello_callback_def delay_field_def json_field_def
          waited_def res_json_def Let_def early_env_def quiet_env_def startup_def throws_at_def)
qed

text \<open>
  Claim C5, amended. When nothing throws and the draw is a double of \<open>[0, 1)\<close>, so at
  most \<open>1 - 1 / 2 ^ 53\<close>, the delay of \<^verbatim>\<open>GET /hello\<close> is an integer from 0 to 499. It is
  the floor of the product of the draw and 500 as a double: the exact product is in
  \<open>[delay, delay + 1)\<close> or less than \<open>1 / 2 ^ 45\<close> below the delay, and every draw whose
  exact product is in \<open>[d, d + 1 - 1 / 2 ^ 45)\<close> gives the delay \<open>d\<close>, so each delay has
  the same share of the draws up to \<open>1 / 2 ^ 45\<close> of it. The handler answers from the
  callback of a timer armed with that delay, and the \<^verbatim>\<open>delay\<close> field of the body is that
  delay. The time that passes on the clock before the answer is the delay plus the
  timer's error: it is the delay exactly when the timer fires on time, and at least the
  delay exactly when the timer does not fire early.
\<close>

theorem hello_delay_is_requested_delay:
  assumes "fault ev = None" and "0 \<le> random ev 0" and "random ev 0 \<le> 1 - 1 / 2 ^ 53"
  shows "0 \<le> hello_delay ev \<and> hello_delay ev < 500 \<and>
         of_int (hello_delay ev) - 1 / 2 ^ 45 \<le> random ev 0 * 500 \<and>
         random ev 0 * 500 < of_int (hello_delay ev) + 1 \<and>
         (\<forall>d. of_int d \<le> random ev 0 * 500 \<and> random ev 0 * 500 < of_int d + 1 - 1 / 2 ^ 45
            \<longrightarrow> hello_delay ev = d) \<and>
         fst (hello ev w) = Inr (hello_callback ev (hello_delay ev)) \<and>
         delay_field (hello ev w) = Some (JNum (of_int (hello_delay ev))) \<and>
         waited w (hello ev w) = hello_delay ev + timer_error ev \<and>
         (waited w (hello ev w) = hello_delay ev \<longleftrightarrow> timer_error ev = 0) \<and>
         (hello_delay ev \<le> waited w (hello ev w) \<longleftrightarrow> 0 \<le> timer_error ev)"
proof -
  have r: "random ev 0 < 1"
    using assms(3) by (rule order_le_less_trans) simp
  have range: "0 \<le> hello_delay ev \<and> hello_delay ev < 500"
    using assms(2,3) by (rule hello_delay_range)
  have outer: "of_int (hello_delay ev) - 1 / 2 ^ 45 \<le> random ev 0 * 500 \<and>
      random ev 0 * 500 < of_int (hello_delay ev) + 1"
    using assms(2) r by (rule hello_delay_outer) simp
  have inner: "\<forall>d. of_int d \<le> random ev 0 * 500 \<and>
      random ev 0 * 500 < of_int d + 1 - 1 / 2 ^ 45 \<longrightarrow> hello_delay ev = d"
    using assms(2) r by (blast intro: hello_delay_inner)
  have run: "fst (hello ev w) = Inr (hello_callback ev (hello_delay ev)) \<and>
      delay_field (hello ev w) = Some (JNum (of_int (hello_delay ev))) \<and>
      waited w (hello ev w) = hello_delay ev + timer_error ev"
    using assms(1)
    by (simp add: hello_def hello_sync_def hello_callback_def delay_field_def json_field_def
          waited_def res_json_def Let_def)
  then have "(waited w (hello ev w) = hello_delay ev \<longleftrightarrow> timer_error ev = 0) \<and>
      (hello_delay ev \<le> waited w (hello ev w) \<longleftrightarrow> 0 \<le> timer_error ev)"
    by simp
  then show ?thesis
    using range outer inner run by blast
qed

text \<open>The draw 1/2 with a timer that is 1 ms late: the delay and the field are 250, the
  wait was 251 ms.\<close>

theorem hello_delay_is_requested_delay_witness:
  "fault half_env = None \<and> 0 \<le> random half_env 0 \<and> random half_env 0 \<le> 1 - 1 / 2 ^ 53 \<and>
   hello_delay half_env = 250 \<and>
   delay_field (hello half_env (startup 0)) = Some (JNum 250) \<and>
   waited (startup 0) (hello half_env (startup 0)) = 251"
proof -
  have h: "fault half_env = None" "0 \<le> random half_env 0"
      "random half_env 0 \<le> 1 - 1 / 2 ^ 53"
    by (simp_all add: half_env_def quiet_env_def)
  have d: "hello_delay half_env = 250"
    by (simp add: hello_delay_def half_env_def quiet_env_def to_double_250)
  have t: "timer_error half_env = 1"
    by (simp add: half_env_def quiet_env_def)
  show ?thesis
    using h d t hello_delay_is_requested_delay [OF h, of "startup 0"]
    by simp
qed

subsection \<open>C6: the attributes of the memory endpoint\<close>

text \<open>
  Claim C6, as stated, fails for the resident set: \<^verbatim>\<open>GET /memory\<close> attaches three
  values to the active span, and the resident set size, which the response body reports,
  is not among them.
\<close>

theorem memory_rss_counterexample:
  "rss (memoryUsage quiet_env) = 52428800 \<and>
   active_attr_values (snd (memory quiet_env serving)) =
     [JNum 10485760, JNum 20971520, JNum 1048576] \<and>
   JNum (of_nat (rss (memoryUsage quiet_env))) \<notin>
     set (active_attr_values (snd (memory quiet_env serving)))"
  by (simp add: memory_def active_attr_values_def setAttributes_def Let_def quiet_env_def
        serving_def startup_def new_span_def throws_at_def on_active_def)

text \<open>
  Claim C6, amended. When nothing throws, \<^verbatim>\<open>GET /memory\<close> sets on the active span, if
  there is one, the attributes \<^verbatim>\<open>memory.heap_used\<close>, \<^verbatim>\<open>memory.heap_total\<close> and
  \<^verbatim>\<open>memory.external\<close> to the raw byte values of heap used, heap total and external, and
  no other attribute; the body reports these three and the resident set in rounded MB.
\<close>

theorem memory_attaches_heap_and_external:
  assumes "fault ev = None"
  shows "active_span (snd (memory ev w)) =
           map_option (setAttributes
              [(''memory.heap_used'', JNum (of_nat (heapUsed (memoryUsage ev)))),
               (''memory.heap_total'', JNum (of_nat (heapTotal (memoryUsage ev)))),
               (''memory.external'', JNum (of_nat (external (memoryUsage ev))))])
             (active_span w) \<and>
         active_attr_values (snd (memory ev w)) =
           (case active_span w of None \<Rightarrow> []
            | Some s \<Rightarrow> [JNum (of_nat (heapUsed (memoryUsage ev))),
                        JNum (of_nat (heapTotal (memoryUsage ev))),
                        JNum (of_nat (external (memoryUsage ev)))] @ map snd (span_attrs s)) \<and>
         fst (memory ev w) = Inr (res_json 200 (JObj
            [(''memory'', JObj [(''heapUsed'', JStr (mb (heapUsed (memoryUsage ev)))),
                                (''heapTotal'', JStr (mb (heapTotal (memoryUsage ev)))),
                                (''external'', JStr (mb (external (memoryUsage ev)))),
                                (''rss'', JStr (mb (rss (memoryUsage ev))))]),
             (''timestamp'', JDate (clock w))]))"
  using assms
  by (cases "active_span w")
     (simp_all add: memory_def active_attr_values_def setAttributes_def Let_def)

text \<open>A reading of 10 MB heap used, 20 MB heap total and 1 MB external.\<close>

theorem memory_attaches_heap_and_external_witness:
  "fault quiet_env = None \<and>
   map_option span_attrs (active_span (snd (memory quiet_env serving))) =
     Some [(''memory.heap_used'', JNum 10485760),
           (''memory.heap_total'', JNum 20971520),
           (''memory.external'', JNum 1048576)]"
proof -
  have q: "fault quiet_env = None"
    by (simp add: quiet_env_def)
  show ?thesis
    using q memory_attaches_heap_and_external [OF q, of serving, THEN conjunct1]
    by (simp add: quiet_env_def serving_def startup_def new_span_def setAttributes_def)
qed

subsection \<open>C7: the active-connection counter\<close>

text \<open>
  Claim C7. The middleware adds 1 to the active-connection counter at request entry, no
  route handler and not the error handler changes it, the \<^verbatim>\<open>finish\<close> callback adds -1;
  so the counter is one above its old value while the request is in flight and back at
  its old value once the request has completed, on every path. When the steps of several
  requests interleave, the counter is its old value plus the number of requests that
  have arrived and not finished.
\<close>

theorem active_connections_restored:
  "activeConnections (snd (middleware_entry req w)) = activeConnections w + 1 \<and>
   activeConnections (snd (dispatch m ev req w)) = activeConnections w \<and>
   activeConnections (snd (error_handler err w)) = activeConnections w \<and>
   activeConnections (on_finish req res t sid w) = activeConnections w - 1 \<and>
   activeConnections (snd (before_finish m ev req w)) = activeConnections w + 1 \<and>
   activeConnections (snd (handle_request m ev req w)) = activeConnections w \<and>
   activeConnections (fold step es w) =
     activeConnections w + int (arrivals es) - int (finishes es)"
  using dispatch_keeps [of w m ev req] error_handler_keeps [of w err]
    activeConnections_in_flight [of es w]
  by (simp add: keeps_def middleware_entry_eq handle_request_eq before_finish_keeps)

text \<open>A \<^verbatim>\<open>/db-query\<close> request whose query throws, on a server with 7 connections.\<close>

theorem active_connections_restored_witness:
  "activeConnections (snd (before_finish exact_get throwing_env (get_request ''/db-query'')
      ((startup 0)\<lparr>activeConnections := 7\<rparr>))) = 8 \<and>
   activeConnections (snd (handle_request exact_get throwing_env (get_request ''/db-query'')
      ((startup 0)\<lparr>activeConnections := 7\<rparr>))) = 7"
  using active_connections_restored [of "get_request ''/db-query''"
      "(startup 0)\<lparr>activeConnections := 7\<rparr>" exact_get throwing_env _ _ _ _ "[]"]
  by simp

subsection \<open>C8: the CPU-intensive endpoint\<close>

text \<open>
  Claim C8. The loop of \<^verbatim>\<open>GET /cpu-intensive\<close> runs its body for \<open>i = 0, ..., 999999\<close>,
  stops at \<open>i = 1000000\<close> and has then accumulated the sum of \<open>sqrt i\<close> times the
  \<open>i\<close>-th draw. When nothing throws and the draws are in \<open>[0, 1)\<close>, the body of the
  response has \<^verbatim>\<open>iterations\<close> 1000000 and as \<^verbatim>\<open>result\<close> that sum rounded, which is not
  negative.
\<close>

theorem cpu_intensive_result:
  assumes "fault ev = None" and "\<forall>i. 0 \<le> random ev i \<and> random ev i < 1"
  shows "cpu_loop (random ev) 1000000 0 0 =
           (1000000, \<Sum>k = 0..<1000000. sqrt (real k) * random ev k) \<and>
         fst (cpu_intensive ev w) =
           Inr (res_json 200 (JObj
             [(''message'', JStr ''CPU intensive operation completed''),
              (''iterations'', JNum 1000000),
              (''result'',
                 JNum (of_int (round (\<Sum>k = 0..<1000000. sqrt (real k) * random ev k)))),
              (''timestamp'', JDate (clock w))])) \<and>
         0 \<le> round (\<Sum>k = 0..<1000000. sqrt (real k) * random ev k)"
proof -
  have l: "cpu_loop (random ev) 1000000 0 0 =
           (1000000, \<Sum>k = 0..<1000000. sqrt (real k) * random ev k)"
    by (simp add: cpu_loop_eq)
  have "0 \<le> (\<Sum>k = 0..<1000000. sqrt (real k) * random ev k)"
    using assms(2) by (intro sum_nonneg) simp
  then have "0 \<le> round (\<Sum>k = 0..<1000000. sqrt (real k) * random ev k)"
    by (simp add: round_def)
  then show ?thesis
    using assms(1) l by (simp add: cpu_intensive_def Let_def)
qed

text \<open>With every draw 0 the result is 0.\<close>

theorem cpu_intensive_result_witness:
  "fault quiet_env = None \<and> (\<forall>i. 0 \<le> random quiet_env i \<and> random quiet_env i < 1) \<and>
   fst (cpu_intensive quiet_env (startup 0)) =
     Inr (res_json 200 (JObj
        [(''message'', JStr ''CPU intensive operation completed''),
         (''iterations'', JNum 1000000),
         (''result'', JNum 0),
         (''timestamp'', JDate 0)]))"
  using cpu_intensive_result [of quiet_env "startup 0"]
  by (simp add: quiet_env_def startup_def)

subsection \<open>C9: the error handler's response\<close>

text \<open>
  Claim C9. The error handler answers 500 with a body made of the fixed string
  \<^verbatim>\<open>Internal Server Error\<close> and the timestamp: neither the message nor the stack of the
  error is in it. So two errors get the same response from the error handler, and two
  runs of a request that differ only in the error thrown give the client the same
  response, whatever the route and the fault point.
\<close>

theorem error_response_is_generic:
  "fst (error_handler err w) =
     res_json 500 (JObj [(''error'', JStr ''Internal Server Error''),
                         (''timestamp'', JDate (clock w))]) \<and>
   fst (error_handler err w) = fst (error_handler err' w) \<and>
   fst (handle_request m (ev\<lparr>fault := Some (k, err)\<rparr>) req w) =
     fst (handle_request m (ev\<lparr>fault := Some (k, err')\<rparr>) req w)"
  using dispatch_any_error [where m = m and ev = ev and k = k and e = err and e' = err'
      and req = req]
  by (simp add: error_handler_response handle_request_answer)

text \<open>A \<^verbatim>\<open>GET /health\<close> whose handler throws, once with one error and once with
  another.\<close>

theorem error_response_is_generic_witness:
  "fst (handle_request exact_get
         (quiet_env\<lparr>fault := Some (0, \<lparr>err_message = ''secret'', err_stack = ''at db.js:7''\<rparr>)\<rparr>)
         (get_request ''/health'') (startup 0)) =
   fst (handle_request exact_get
         (quiet_env\<lparr>fault := Some (0, new_Error ''other'')\<rparr>)
         (get_request ''/health'') (startup 0))"
  using error_response_is_generic [where m = exact_get and ev = quiet_env and k = 0
      and err = "\<lparr>err_message = ''secret'', err_stack = ''at db.js:7''\<rparr>"
      and err' = "new_Error ''other''" and req = "get_request ''/health''" and w = "startup 0"]
  by simp

subsection \<open>C10: the default user agent\<close>

text \<open>
  Claim C10. For a request without a \<^verbatim>\<open>User-Agent\<close> header the middleware sets the
  attribute \<^verbatim>\<open>http.user_agent\<close> of the request's span to the string \<^verbatim>\<open>unknown\<close>: the
  attribute is present with that value when the middleware has run, and still when the
  request has completed.
\<close>

theorem user_agent_defaults_to_unknown:
  assumes "user_agent req = None"
  shows "map_of (span_attrs (spans (snd (middleware_entry req w)) !
                   snd (fst (middleware_entry req w)))) ''http.user_agent''
           = Some (JStr ''unknown'') \<and>
         map_of (span_attrs (spans (snd (handle_request m ev req w)) ! length (spans w)))
           ''http.user_agent'' = Some (JStr ''unknown'')"
proof
  show "map_of (span_attrs (spans (snd (middleware_entry req w)) !
                   snd (fst (middleware_entry req w)))) ''http.user_agent''
           = Some (JStr ''unknown'')"
    using assms
    by (simp add: middleware_entry_eq setAttributes_def new_span_def user_agent_or_unknown_def)
  obtain new where n: "spans (snd (before_finish m ev req w)) =
      spans w @ setAttributes
            [(''http.method'', JStr (req_method req)),
             (''http.url'', JStr (req_url req)),
             (''http.user_agent'', JStr (user_agent_or_unknown req))]
            (new_span (req_method req @ '' '' @ req_path req)) # new"
    using before_finish_spans by blast
  show "map_of (span_attrs (spans (snd (handle_request m ev req w)) ! length (spans w)))
           ''http.user_agent'' = Some (JStr ''unknown'')"
    using assms
    by (simp add: handle_request_eq on_finish_spans [OF n] setAttributes_def end_span_def
          new_span_def user_agent_or_unknown_def)
qed

text \<open>A \<^verbatim>\<open>GET /health\<close> request without the header.\<close>

theorem user_agent_defaults_to_unknown_witness:
  "user_agent (get_request ''/health'') = None \<and>
   map_of (span_attrs (spans (snd (handle_request exact_get quiet_env (get_request ''/health'')
      (startup 0))) ! 0)) ''http.user_agent'' = Some (JStr ''unknown'')"
  using user_agent_defaults_to_unknown [of "get_request ''/health''" "startup 0" exact_get quiet_env]
  by (simp add: get_request_def startup_def)

end
